theory Spec2Isabelle
  imports Complex_Main
begin

section \<open>Data model\<close>

text \<open>
  The program is \<^verbatim>\<open>send_met_office_weather_to_pushbullet.py\<close>. A Python \<^verbatim>\<open>str\<close> is a
  sequence of Unicode code points, and \<^verbatim>\<open>len\<close>, iteration and concatenation work on code
  points; a string is therefore a list of code points, each a natural number.
\<close>

type_synonym codepoint = nat
type_synonym pystr = "codepoint list"

definition ord :: "char \<Rightarrow> codepoint" where
  "ord c = of_char c"

definition ustr :: "string \<Rightarrow> pystr" where
  "ustr s = map ord s"

text \<open>The only exception the formatting code can raise: a dictionary lookup of a missing key.\<close>

datatype py_error = KeyError pystr

subsection \<open>Glyph tables\<close>

text \<open>
  \<^verbatim>\<open>FULLWIDTH_UNICODE\<close> is looked up with the characters of the data, so it is kept as the
  association list of the source: keys are one-character strings, values are strings.
\<close>

definition FULLWIDTH_UNICODE :: "(pystr \<times> pystr) list" where
  "FULLWIDTH_UNICODE =
    [(ustr '' '', [0x3000]),
     (ustr ''-'', [0xFF0D]),
     (ustr ''0'', [0xFF10]),
     (ustr ''1'', [0xFF11]),
     (ustr ''2'', [0xFF12]),
     (ustr ''3'', [0xFF13]),
     (ustr ''4'', [0xFF14]),
     (ustr ''5'', [0xFF15]),
     (ustr ''6'', [0xFF16]),
     (ustr ''7'', [0xFF17]),
     (ustr ''8'', [0xFF18]),
     (ustr ''9'', [0xFF19]),
     (ustr ''A'', [0xFF21]),
     (ustr ''B'', [0xFF22]),
     (ustr ''C'', [0xFF23]),
     (ustr ''D'', [0xFF24]),
     (ustr ''E'', [0xFF25]),
     (ustr ''F'', [0xFF26]),
     (ustr ''G'', [0xFF27]),
     (ustr ''H'', [0xFF28]),
     (ustr ''I'', [0xFF29]),
     (ustr ''J'', [0xFF2A]),
     (ustr ''K'', [0xFF2B]),
     (ustr ''L'', [0xFF2C]),
     (ustr ''M'', [0xFF2D]),
     (ustr ''N'', [0xFF2E]),
     (ustr ''O'', [0xFF2F]),
     (ustr ''P'', [0xFF30]),
     (ustr ''Q'', [0xFF31]),
     (ustr ''R'', [0xFF32]),
     (ustr ''S'', [0xFF33]),
     (ustr ''T'', [0xFF34]),
     (ustr ''U'', [0xFF35]),
     (ustr ''V'', [0xFF36]),
     (ustr ''W'', [0xFF37]),
     (ustr ''X'', [0xFF38]),
     (ustr ''Y'', [0xFF39]),
     (ustr ''Z'', [0xFF3A]),
     (ustr ''a'', [0xFF41]),
     (ustr ''b'', [0xFF42]),
     (ustr ''c'', [0xFF43]),
     (ustr ''d'', [0xFF44]),
     (ustr ''e'', [0xFF45]),
     (ustr ''f'', [0xFF46]),
     (ustr ''g'', [0xFF47]),
     (ustr ''h'', [0xFF48]),
     (ustr ''i'', [0xFF49]),
     (ustr ''j'', [0xFF4A]),
     (ustr ''k'', [0xFF4B]),
     (ustr ''l'', [0xFF4C]),
     (ustr ''m'', [0xFF4D]),
     (ustr ''n'', [0xFF4E]),
     (ustr ''o'', [0xFF4F]),
     (ustr ''p'', [0xFF50]),
     (ustr ''q'', [0xFF51]),
     (ustr ''r'', [0xFF52]),
     (ustr ''s'', [0xFF53]),
     (ustr ''t'', [0xFF54]),
     (ustr ''u'', [0xFF55]),
     (ustr ''v'', [0xFF56]),
     (ustr ''w'', [0xFF57]),
     (ustr ''x'', [0xFF58]),
     (ustr ''y'', [0xFF59]),
     (ustr ''z'', [0xFF5A])]"

text \<open>
  The other tables are only ever indexed with literal keys that they hold, so each is a
  total function on the enumeration of its keys.
\<close>

datatype emoticon_name =
  SMILEY_FACE_WITH_OPEN_MOUTH | NEUTRAL_FACE | DISAPPOINTED_FACE | LOUDLY_CRYING_FACE

fun EMOTICONS_UNICODE :: "emoticon_name \<Rightarrow> pystr" where
  "EMOTICONS_UNICODE SMILEY_FACE_WITH_OPEN_MOUTH = [0x1F603]"
| "EMOTICONS_UNICODE NEUTRAL_FACE = [0x1F610]"
| "EMOTICONS_UNICODE DISAPPOINTED_FACE = [0x1F61E]"
| "EMOTICONS_UNICODE LOUDLY_CRYING_FACE = [0x1F62D]"

datatype arrow_name = RIGHTWARDS_ARROW | RIGHTWARDS_PAIRED_ARROWS | THREE_RIGHTWARDS_ARROWS

fun ARROWS_UNICODE :: "arrow_name \<Rightarrow> pystr" where
  "ARROWS_UNICODE RIGHTWARDS_ARROW = [0x2192]"
| "ARROWS_UNICODE RIGHTWARDS_PAIRED_ARROWS = [0x21C9]"
| "ARROWS_UNICODE THREE_RIGHTWARDS_ARROWS = [0x21F6]"

definition DEGREE_CELSIUS_UNICODE :: pystr where
  "DEGREE_CELSIUS_UNICODE = [0x2103]"

datatype weather_glyph_name =
  CRESCENT_MOON | BLACK_SUN_WITH_RAYS | SUN_BEHIND_CLOUD | CLOUD | FOGGY
| UMBRELLA_WITH_RAIN_DROPS | SNOWFLAKE | THUNDER_CLOUD_AND_RAIN

fun WEATHER_UNICODE :: "weather_glyph_name \<Rightarrow> pystr" where
  "WEATHER_UNICODE CRESCENT_MOON = [0x1F319]"
| "WEATHER_UNICODE BLACK_SUN_WITH_RAYS = [0x2600]"
| "WEATHER_UNICODE SUN_BEHIND_CLOUD = [0x26C5]"
| "WEATHER_UNICODE CLOUD = [0x2601]"
| "WEATHER_UNICODE FOGGY = [0x1F301]"
| "WEATHER_UNICODE UMBRELLA_WITH_RAIN_DROPS = [0x2614]"
| "WEATHER_UNICODE SNOWFLAKE = [0x2744]"
| "WEATHER_UNICODE THUNDER_CLOUD_AND_RAIN = [0x26C8]"

datatype meridiem_name = SQUARE_AM | SQUARE_PM

fun MERIDIEM_UNICODE :: "meridiem_name \<Rightarrow> pystr" where
  "MERIDIEM_UNICODE SQUARE_AM = [0x33C2]"
| "MERIDIEM_UNICODE SQUARE_PM = [0x33D8]"

datatype weather_type_name =
  Clear_night | Sunny_day | Partly_cloudy_night | Partly_cloudy_day | Not_used
| Mist | Fog | Cloudy | Overcast
| Light_rain_shower_night | Light_rain_shower_day | Drizzle | Light_rain
| Heavy_rain_shower_night | Heavy_rain_shower_day | Heavy_rain
| Sleet_shower_night | Sleet_shower_day | Sleet
| Hail_shower_night | Hail_shower_day | Hail
| Light_snow_shower_night | Light_snow_shower_day | Light_snow
| Heavy_snow_shower_night | Heavy_snow_shower_day | Heavy_snow
| Thunder_shower_night | Thunder_shower_day | Thunder

fun WEATHER_TYPES :: "weather_type_name \<Rightarrow> int" where
  "WEATHER_TYPES Clear_night = 0"
| "WEATHER_TYPES Sunny_day = 1"
| "WEATHER_TYPES Partly_cloudy_night = 2"
| "WEATHER_TYPES Partly_cloudy_day = 3"
| "WEATHER_TYPES Not_used = 4"
| "WEATHER_TYPES Mist = 5"
| "WEATHER_TYPES Fog = 6"
| "WEATHER_TYPES Cloudy = 7"
| "WEATHER_TYPES Overcast = 8"
| "WEATHER_TYPES Light_rain_shower_night = 9"
| "WEATHER_TYPES Light_rain_shower_day = 10"
| "WEATHER_TYPES Drizzle = 11"
| "WEATHER_TYPES Light_rain = 12"
| "WEATHER_TYPES Heavy_rain_shower_night = 13"
| "WEATHER_TYPES Heavy_rain_shower_day = 14"
| "WEATHER_TYPES Heavy_rain = 15"
| "WEATHER_TYPES Sleet_shower_night = 16"
| "WEATHER_TYPES Sleet_shower_day = 17"
| "WEATHER_TYPES Sleet = 18"
| "WEATHER_TYPES Hail_shower_night = 19"
| "WEATHER_TYPES Hail_shower_day = 20"
| "WEATHER_TYPES Hail = 21"
| "WEATHER_TYPES Light_snow_shower_night = 22"
| "WEATHER_TYPES Light_snow_shower_day = 23"
| "WEATHER_TYPES Light_snow = 24"
| "WEATHER_TYPES Heavy_snow_shower_night = 25"
| "WEATHER_TYPES Heavy_snow_shower_day = 26"
| "WEATHER_TYPES Heavy_snow = 27"
| "WEATHER_TYPES Thunder_shower_night = 28"
| "WEATHER_TYPES Thunder_shower_day = 29"
| "WEATHER_TYPES Thunder = 30"

section \<open>Weather classifier\<close>

text \<open>
  \<^verbatim>\<open>range(a, b)\<close> holds the integers from \<open>a\<close> up to but not including \<open>b\<close>; membership of an
  integer is the test below.
\<close>

definition in_range :: "int \<Rightarrow> int \<Rightarrow> int \<Rightarrow> bool" where
  "in_range x a b \<longleftrightarrow> a \<le> x \<and> x < b"

definition get_weather_icon :: "int \<Rightarrow> pystr" where
  "get_weather_icon weather_type =
    (let clear_night = [WEATHER_TYPES Clear_night];
         sun = [WEATHER_TYPES Sunny_day];
         sun_cloud = [WEATHER_TYPES Partly_cloudy_day];
         cloud = [WEATHER_TYPES Partly_cloudy_night, WEATHER_TYPES Cloudy,
                  WEATHER_TYPES Overcast];
         fog = [WEATHER_TYPES Mist, WEATHER_TYPES Fog]
     in if List.member clear_night weather_type then WEATHER_UNICODE CRESCENT_MOON
        else if List.member sun weather_type then WEATHER_UNICODE BLACK_SUN_WITH_RAYS
        else if List.member sun_cloud weather_type then WEATHER_UNICODE SUN_BEHIND_CLOUD
        else if List.member cloud weather_type then WEATHER_UNICODE CLOUD
        else if List.member fog weather_type then WEATHER_UNICODE FOGGY
        else if in_range weather_type (WEATHER_TYPES Light_rain_shower_night)
                  (WEATHER_TYPES Hail)
          then WEATHER_UNICODE UMBRELLA_WITH_RAIN_DROPS
        else if in_range weather_type (WEATHER_TYPES Light_snow_shower_night)
                  (WEATHER_TYPES Heavy_snow)
          then WEATHER_UNICODE SNOWFLAKE
        else if in_range weather_type (WEATHER_TYPES Thunder_shower_night)
                  (WEATHER_TYPES Thunder)
          then WEATHER_UNICODE THUNDER_CLOUD_AND_RAIN
        else WEATHER_UNICODE CLOUD)"

section \<open>Fullwidth encoder\<close>

text \<open>
  \<^verbatim>\<open>str.rjust(width)\<close> pads with spaces on the left up to \<open>width\<close> characters and returns
  the string itself when it is already that long.
\<close>

definition rjust :: "pystr \<Rightarrow> int \<Rightarrow> pystr" where
  "rjust s width = replicate (nat (width - int (length s))) (ord CHR '' '') @ s"

fun string_to_fullwidth_loop :: "pystr \<Rightarrow> pystr \<Rightarrow> py_error + pystr" where
  "string_to_fullwidth_loop fullwidth_string [] = Inr fullwidth_string"
| "string_to_fullwidth_loop fullwidth_string (char # rest) =
    (case map_of FULLWIDTH_UNICODE [char] of
       None \<Rightarrow> Inl (KeyError [char])
     | Some glyph \<Rightarrow> string_to_fullwidth_loop (fullwidth_string @ glyph) rest)"

definition string_to_fullwidth :: "pystr \<Rightarrow> int \<Rightarrow> py_error + pystr" where
  "string_to_fullwidth string rjustlen =
    (let string = (if rjustlen > 0 then rjust string rjustlen else string)
     in string_to_fullwidth_loop [] string)"

section \<open>Field formatters\<close>

text \<open>\<^verbatim>\<open>str\<close> of an integer: its decimal digits, after a minus sign when it is negative.\<close>

fun digits :: "nat \<Rightarrow> pystr" where
  "digits n =
    (if n < 10 then [ord CHR ''0'' + n]
     else digits (n div 10) @ [ord CHR ''0'' + n mod 10])"

declare digits.simps [simp del]

definition str :: "int \<Rightarrow> pystr" where
  "str n = (if n < 0 then ord CHR ''-'' # digits (nat (- n)) else digits (nat n))"

text \<open>
  Of a \<^verbatim>\<open>datetime\<close> the program reads the day of the week (through \<^verbatim>\<open>strftime('%a')\<close>) and
  the hour; the record keeps these two observations.
\<close>

datatype weekday = Monday | Tuesday | Wednesday | Thursday | Friday | Saturday | Sunday

record datetime =
  weekday :: weekday
  hour :: int

text \<open>
  The program never sets a locale, so \<^verbatim>\<open>strftime('%a')\<close> gives the abbreviations of the C
  locale. \<^verbatim>\<open>str.upper\<close> is applied to these abbreviations only, so it is modelled on the
  ASCII letters.
\<close>

fun strftime_a :: "datetime \<Rightarrow> pystr" where
  "strftime_a d =
    (case weekday d of
       Monday \<Rightarrow> ustr ''Mon'' | Tuesday \<Rightarrow> ustr ''Tue'' | Wednesday \<Rightarrow> ustr ''Wed''
     | Thursday \<Rightarrow> ustr ''Thu'' | Friday \<Rightarrow> ustr ''Fri'' | Saturday \<Rightarrow> ustr ''Sat''
     | Sunday \<Rightarrow> ustr ''Sun'')"

definition upper :: "pystr \<Rightarrow> pystr" where
  "upper s = map (\<lambda>c. if ord CHR ''a'' \<le> c \<and> c \<le> ord CHR ''z'' then c - 32 else c) s"

definition get_am_pm :: "datetime \<Rightarrow> pystr" where
  "get_am_pm time =
    (if hour time < 12 then MERIDIEM_UNICODE SQUARE_AM else MERIDIEM_UNICODE SQUARE_PM)"

definition get_temperature :: "int \<Rightarrow> py_error + pystr" where
  "get_temperature temperature =
    (case string_to_fullwidth (str temperature) 3 of
       Inl e \<Rightarrow> Inl e
     | Inr s \<Rightarrow> Inr (s @ DEGREE_CELSIUS_UNICODE))"

definition get_wind_speed :: "int \<Rightarrow> py_error + pystr" where
  "get_wind_speed speed =
    (let wind_speed =
       (if speed < 10 then ARROWS_UNICODE RIGHTWARDS_ARROW
        else if speed < 20 then ARROWS_UNICODE RIGHTWARDS_PAIRED_ARROWS
        else ARROWS_UNICODE THREE_RIGHTWARDS_ARROWS)
     in case string_to_fullwidth (str speed) 2 of
          Inl e \<Rightarrow> Inl e
        | Inr s \<Rightarrow> Inr (wind_speed @ s @ ustr ''mph''))"

section \<open>Nice-day classifier\<close>

text \<open>
  A forecast is the dictionary built by \<^verbatim>\<open>get_met_office_3hourly_forecast\<close>, with the keys
  the formatting code reads (\<^verbatim>\<open>'to'\<close> is only logged). \<^verbatim>\<open>'period'\<close> is the quotient
  \<^verbatim>\<open>int(rep['$']) / (24 * 60 / 8) + 1\<close>, a number that is only ever compared with 4 and 5.
\<close>

record forecast =
  period :: rat
  from_time :: datetime
  weather_type :: int
  temperature_c :: int
  wind_speed_mph :: int
  rain_probability_pc :: int

text \<open>
  A slice \<^verbatim>\<open>xs[start:stop]\<close>: a negative bound counts from the end, and both bounds are
  clamped to the list.
\<close>

definition slice_bound :: "int \<Rightarrow> int \<Rightarrow> nat" where
  "slice_bound n i = (if i < 0 then nat (max (i + n) 0) else nat (min i n))"

definition slice :: "'a list \<Rightarrow> int \<Rightarrow> int \<Rightarrow> 'a list" where
  "slice xs start stop =
    (let n = int (length xs); lo = slice_bound n start; hi = slice_bound n stop
     in take (hi - lo) (drop lo xs))"

definition nice_weather_types :: "int list" where
  "nice_weather_types =
    [WEATHER_TYPES Clear_night, WEATHER_TYPES Sunny_day, WEATHER_TYPES Partly_cloudy_night,
     WEATHER_TYPES Partly_cloudy_day, WEATHER_TYPES Cloudy]"

fun calc_nice_day_loop :: "nat \<Rightarrow> forecast list \<Rightarrow> pystr" where
  "calc_nice_day_loop i [] = EMOTICONS_UNICODE SMILEY_FACE_WITH_OPEN_MOUTH"
| "calc_nice_day_loop i (forecast # rest) =
    (if \<not> (List.member nice_weather_types (weather_type forecast) \<and>
            wind_speed_mph forecast \<le> 15 \<and>
            rain_probability_pc forecast \<le> 20)
     then (if i \<le> 1 then EMOTICONS_UNICODE LOUDLY_CRYING_FACE
           else EMOTICONS_UNICODE NEUTRAL_FACE)
     else calc_nice_day_loop (i + 1) rest)"

definition calc_nice_day_emoticon :: "int \<Rightarrow> forecast list \<Rightarrow> pystr" where
  "calc_nice_day_emoticon current_index forecasts =
    (let recent_forecasts = slice forecasts (max (current_index - 3) 0) (current_index + 1)
     in calc_nice_day_loop 0 (rev recent_forecasts))"

section \<open>Forecast selector and line composer\<close>

text \<open>
  The body of the loop of \<^verbatim>\<open>main\<close> for one selected forecast: a newline when the body is
  not empty, then the six parts of the line. An exception leaves the loop.
\<close>

definition newline :: pystr where
  "newline = [0x0A]"

definition main_append :: "nat \<Rightarrow> forecast \<Rightarrow> forecast list \<Rightarrow> pystr \<Rightarrow> py_error + pystr" where
  "main_append i forecast forecasts body =
    (let body = (if body \<noteq> [] then body @ newline else body)
     in case string_to_fullwidth (upper (strftime_a (from_time forecast))) 0 of
          Inl e \<Rightarrow> Inl e
        | Inr day \<Rightarrow>
           (let body = body @ day;
                body = body @ get_am_pm (from_time forecast);
                body = body @ calc_nice_day_emoticon (int i) forecasts;
                body = body @ get_weather_icon (weather_type forecast)
            in case get_temperature (temperature_c forecast) of
                 Inl e \<Rightarrow> Inl e
               | Inr temperature \<Rightarrow>
                  (case get_wind_speed (wind_speed_mph forecast) of
                     Inl e \<Rightarrow> Inl e
                   | Inr wind \<Rightarrow> Inr (body @ temperature @ wind))))"

fun main_loop :: "forecast list \<Rightarrow> (nat \<times> forecast) list \<Rightarrow> pystr \<Rightarrow> py_error + pystr" where
  "main_loop forecasts [] body = Inr body"
| "main_loop forecasts ((i, forecast) # rest) body =
    (if period forecast = 4 \<or> period forecast = 5
     then (case main_append i forecast forecasts body of
             Inl e \<Rightarrow> Inl e
           | Inr body \<Rightarrow> main_loop forecasts rest body)
     else main_loop forecasts rest body)"

definition main_body :: "forecast list \<Rightarrow> py_error + pystr" where
  "main_body forecasts = main_loop forecasts (enumerate 0 forecasts) []"

section \<open>Vocabulary of the specification\<close>

text \<open>
  The supported alphabet in the specification's words: uppercase and lowercase ASCII
  letters, digits, space and hyphen.
\<close>

definition supported :: "codepoint \<Rightarrow> bool" where
  "supported c \<longleftrightarrow>
     (ord CHR ''A'' \<le> c \<and> c \<le> ord CHR ''Z'') \<or>
     (ord CHR ''a'' \<le> c \<and> c \<le> ord CHR ''z'') \<or>
     (ord CHR ''0'' \<le> c \<and> c \<le> ord CHR ''9'') \<or>
     c = ord CHR '' '' \<or> c = ord CHR ''-''"

text \<open>\<open>g\<close> is the one code point that the table gives for the character \<open>c\<close>.\<close>

definition fullwidth_glyph :: "codepoint \<Rightarrow> codepoint \<Rightarrow> bool" where
  "fullwidth_glyph c g \<longleftrightarrow> map_of FULLWIDTH_UNICODE [c] = Some [g]"

text \<open>
  A nice record, and the window of the nice-day classifier, in the specification's words:
  the records that the sequence holds at the positions \<open>max (index - 3) 0\<close> to \<open>index\<close>,
  in chronological order.
\<close>

definition nice :: "forecast \<Rightarrow> bool" where
  "nice f \<longleftrightarrow>
     weather_type f \<in> {0, 1, 2, 3, 7} \<and> wind_speed_mph f \<le> 15 \<and> rain_probability_pc f \<le> 20"

definition record_at :: "forecast list \<Rightarrow> int \<Rightarrow> forecast option" where
  "record_at forecasts k =
    (if 0 \<le> k \<and> k < int (length forecasts) then Some (forecasts ! nat k) else None)"

definition window :: "int \<Rightarrow> forecast list \<Rightarrow> forecast list" where
  "window index forecasts = List.map_filter (record_at forecasts) [max (index - 3) 0 .. index]"

text \<open>
  The decimal numeral of an integer, in the specification's words and without reference to
  \<open>str\<close>: decimal digits with no leading zero that denote the absolute value, after a minus
  sign when the integer is negative.
\<close>

definition digits_value :: "pystr \<Rightarrow> nat" where
  "digits_value ds = foldl (\<lambda>a c. 10 * a + (c - ord CHR ''0'')) 0 ds"

definition decimal_digits :: "nat \<Rightarrow> pystr \<Rightarrow> bool" where
  "decimal_digits n ds \<longleftrightarrow>
     ds \<noteq> [] \<and> list_all (\<lambda>c. ord CHR ''0'' \<le> c \<and> c \<le> ord CHR ''9'') ds \<and>
     (length ds = 1 \<or> hd ds \<noteq> ord CHR ''0'') \<and> digits_value ds = n"

definition decimal_numeral :: "int \<Rightarrow> pystr \<Rightarrow> bool" where
  "decimal_numeral n s \<longleftrightarrow>
     (if n < 0 then s \<noteq> [] \<and> hd s = ord CHR ''-'' \<and> decimal_digits (nat (- n)) (tl s)
      else decimal_digits (nat n) s)"


text \<open>
  The rule of the nice-day classifier in the specification's words. The window is read most
  recent record first; \<open>i\<close> is the position of the first record that is not nice, or the
  length of the window when every record is nice. The window has at most four records; the
  result is the smiley face (happy) when every record is nice, the loudly crying face (sad,
  the glyph the code returns for the sad level) when \<open>i \<le> 1\<close>, and the neutral face when
  \<open>i\<close> is 2 or 3.
\<close>

definition nice_day_rule :: "int \<Rightarrow> forecast list \<Rightarrow> bool" where
  "nice_day_rule index forecasts \<longleftrightarrow>
    (let w = rev (window index forecasts);
         i = length (takeWhile nice w);
         r = calc_nice_day_emoticon index forecasts
     in length w \<le> 4 \<and>
        (if i = length w then r = EMOTICONS_UNICODE SMILEY_FACE_WITH_OPEN_MOUTH
         else if i \<le> 1 then r = EMOTICONS_UNICODE LOUDLY_CRYING_FACE
         else (i = 2 \<or> i = 3) \<and> r = EMOTICONS_UNICODE NEUTRAL_FACE))"

subsection \<open>Example records\<close>

text \<open>
  A nice late-morning period, a wet and windy early-afternoon period (light rain, wind 25,
  rain probability 80) and a nice period in the night, outside the two selected periods.
\<close>

definition fine_period :: forecast where
  "fine_period = \<lparr>period = 4, from_time = \<lparr>weekday = Monday, hour = 9\<rparr>, weather_type = 1,
     temperature_c = 18, wind_speed_mph = 5, rain_probability_pc = 10\<rparr>"

definition wet_period :: forecast where
  "wet_period = \<lparr>period = 5, from_time = \<lparr>weekday = Monday, hour = 12\<rparr>, weather_type = 12,
     temperature_c = 9, wind_speed_mph = 25, rain_probability_pc = 80\<rparr>"

definition night_period :: forecast where
  "night_period = \<lparr>period = 1, from_time = \<lparr>weekday = Tuesday, hour = 0\<rparr>, weather_type = 0,
     temperature_c = - 2, wind_speed_mph = 3, rain_probability_pc = 0\<rparr>"

section \<open>Properties of the weather classifier\<close>

lemma get_weather_icon_cases:
  "get_weather_icon wt =
    (if wt = 0 then WEATHER_UNICODE CRESCENT_MOON
     else if wt = 1 then WEATHER_UNICODE BLACK_SUN_WITH_RAYS
     else if wt = 3 then WEATHER_UNICODE SUN_BEHIND_CLOUD
     else if wt = 2 \<or> wt = 7 \<or> wt = 8 then WEATHER_UNICODE CLOUD
     else if wt = 5 \<or> wt = 6 then WEATHER_UNICODE FOGGY
     else if 9 \<le> wt \<and> wt < 21 then WEATHER_UNICODE UMBRELLA_WITH_RAIN_DROPS
     else if 22 \<le> wt \<and> wt < 27 then WEATHER_UNICODE SNOWFLAKE
     else if 28 \<le> wt \<and> wt < 30 then WEATHER_UNICODE THUNDER_CLOUD_AND_RAIN
     else WEATHER_UNICODE CLOUD)"
  by (simp add: get_weather_icon_def in_range_def)

lemma get_weather_icon_glyph: "\<exists>g. get_weather_icon wt = WEATHER_UNICODE g"
  by (auto simp add: get_weather_icon_cases simp del: WEATHER_UNICODE.simps)

text \<open>
  C2. The weather classifier maps \<open>{0}\<close> to the clear-night glyph, \<open>{1}\<close> to sun, \<open>{3}\<close> to
  sun behind cloud, \<open>{2, 7, 8}\<close> to cloud, \<open>{5, 6}\<close> to fog, the codes from 9 up to but not
  including 21 to rain, from 22 up to but not including 27 to snow, from 28 up to but not
  including 30 to thunder, and every other code to cloud. In particular 21, 27, 30 and 4 give
  cloud, 9 and 20 give rain, 29 gives thunder.
\<close>

theorem weather_classifier_partition:
  "get_weather_icon wt =
    (if wt \<in> {0} then WEATHER_UNICODE CRESCENT_MOON
     else if wt \<in> {1} then WEATHER_UNICODE BLACK_SUN_WITH_RAYS
     else if wt \<in> {3} then WEATHER_UNICODE SUN_BEHIND_CLOUD
     else if wt \<in> {2, 7, 8} then WEATHER_UNICODE CLOUD
     else if wt \<in> {5, 6} then WEATHER_UNICODE FOGGY
     else if wt \<in> {9..<21} then WEATHER_UNICODE UMBRELLA_WITH_RAIN_DROPS
     else if wt \<in> {22..<27} then WEATHER_UNICODE SNOWFLAKE
     else if wt \<in> {28..<30} then WEATHER_UNICODE THUNDER_CLOUD_AND_RAIN
     else WEATHER_UNICODE CLOUD) \<and>
   get_weather_icon 21 = WEATHER_UNICODE CLOUD \<and>
   get_weather_icon 27 = WEATHER_UNICODE CLOUD \<and>
   get_weather_icon 30 = WEATHER_UNICODE CLOUD \<and>
   get_weather_icon 4 = WEATHER_UNICODE CLOUD \<and>
   get_weather_icon 9 = WEATHER_UNICODE UMBRELLA_WITH_RAIN_DROPS \<and>
   get_weather_icon 20 = WEATHER_UNICODE UMBRELLA_WITH_RAIN_DROPS \<and>
   get_weather_icon 29 = WEATHER_UNICODE THUNDER_CLOUD_AND_RAIN"
  by (simp add: get_weather_icon_cases)

text \<open>
  C3, as the code has it. A weather type code below 0 or above 30 is not rejected: the
  classifier returns the cloud glyph for it, as it does for the gap codes in range.
\<close>

theorem weather_classifier_out_of_range:
  "wt < 0 \<or> 30 < wt \<Longrightarrow> get_weather_icon wt = WEATHER_UNICODE CLOUD"
  by (auto simp: get_weather_icon_cases)

theorem weather_classifier_out_of_range_witness:
  "((- 1 :: int) < 0 \<or> (30 :: int) < - 1) \<and> get_weather_icon (- 1) = WEATHER_UNICODE CLOUD"
  using weather_classifier_out_of_range [of "- 1"] by simp

text \<open>
  C3, as stated, fails: 31 lies outside the codes 0 to 30, and the classifier returns the
  cloud glyph for it instead of an error.
\<close>

theorem weather_classifier_rejects_counterexample:
  "\<not> (0 \<le> (31 :: int) \<and> (31 :: int) \<le> 30) \<and> get_weather_icon 31 = WEATHER_UNICODE CLOUD"
  by (simp add: get_weather_icon_cases)

text \<open>
  C9. The weather classifier is total over the integers: for every code, negative ones and
  those above 30 included, it returns one of the eight weather glyphs, and a code in none of
  the listed categories gives the cloud glyph.
\<close>

theorem weather_classifier_total:
  "(\<exists>g. get_weather_icon wt = WEATHER_UNICODE g) \<and>
   (wt \<notin> {0} \<union> {1} \<union> {3} \<union> {2, 7, 8} \<union> {5, 6} \<union> {9..<21} \<union> {22..<27} \<union> {28..<30} \<longrightarrow>
      get_weather_icon wt = WEATHER_UNICODE CLOUD)"
  using get_weather_icon_glyph [of wt] by (auto simp: get_weather_icon_cases)

theorem weather_classifier_total_witness:
  "(- 7 :: int) \<notin> {0} \<union> {1} \<union> {3} \<union> {2, 7, 8} \<union> {5, 6} \<union> {9..<21} \<union> {22..<27} \<union> {28..<30} \<and>
   get_weather_icon (- 7) = WEATHER_UNICODE CLOUD \<and>
   (\<exists>g. get_weather_icon 1000 = WEATHER_UNICODE g)"
proof -
  have "(- 7 :: int) \<notin> {0} \<union> {1} \<union> {3} \<union> {2, 7, 8} \<union> {5, 6} \<union> {9..<21} \<union> {22..<27} \<union> {28..<30}"
    by simp
  with weather_classifier_total [of "- 7"] weather_classifier_total [of 1000]
  show ?thesis by blast
qed

section \<open>Properties of the fullwidth encoder\<close>

lemma FULLWIDTH_entries:
  "\<forall>(k, g) \<in> set FULLWIDTH_UNICODE.
     (\<exists>c. k = [c] \<and> supported c) \<and> length g = 1 \<and> 10 \<notin> set g"
  by (simp add: FULLWIDTH_UNICODE_def ustr_def ord_def supported_def)

lemma upper_keys: "\<forall>c \<in> set [65..<91]. map_of FULLWIDTH_UNICODE [c] \<noteq> None"
  by (simp add: FULLWIDTH_UNICODE_def ustr_def ord_def upt_rec)

lemma lower_keys: "\<forall>c \<in> set [97..<123]. map_of FULLWIDTH_UNICODE [c] \<noteq> None"
  by (simp add: FULLWIDTH_UNICODE_def ustr_def ord_def upt_rec)

lemma digit_keys: "\<forall>c \<in> set [48..<58]. map_of FULLWIDTH_UNICODE [c] \<noteq> None"
  by (simp add: FULLWIDTH_UNICODE_def ustr_def ord_def upt_rec)

lemma space_key: "map_of FULLWIDTH_UNICODE [32] \<noteq> None"
  by (simp add: FULLWIDTH_UNICODE_def ustr_def ord_def)

lemma hyphen_key: "map_of FULLWIDTH_UNICODE [45] \<noteq> None"
  by (simp add: FULLWIDTH_UNICODE_def ustr_def ord_def)

lemma supported_cases:
  "supported c \<Longrightarrow>
     c \<in> {65..<91} \<or> c \<in> {97..<123} \<or> c \<in> {48..<58} \<or> c = 32 \<or> c = 45"
  by (auto simp: supported_def ord_def)

lemma supported_lookup: "supported c \<Longrightarrow> map_of FULLWIDTH_UNICODE [c] \<noteq> None"
  using supported_cases [of c] upper_keys [unfolded set_upt] lower_keys [unfolded set_upt]
    digit_keys [unfolded set_upt] space_key hyphen_key
  by blast

lemma lookup_Some:
  assumes "map_of FULLWIDTH_UNICODE [c] = Some g"
  shows "supported c \<and> (\<exists>x. g = [x] \<and> x \<noteq> 10)"
proof -
  from assms have "([c], g) \<in> set FULLWIDTH_UNICODE" by (rule map_of_SomeD)
  with FULLWIDTH_entries have "(\<exists>d. [c] = [d] \<and> supported d) \<and> length g = 1 \<and> 10 \<notin> set g"
    by blast
  then show ?thesis by (cases g) auto
qed

lemma lookup_supported_iff: "map_of FULLWIDTH_UNICODE [c] \<noteq> None \<longleftrightarrow> supported c"
  using supported_lookup lookup_Some by blast

lemma supported_glyph: "supported c \<Longrightarrow> \<exists>g. fullwidth_glyph c g"
  using supported_lookup [of c] lookup_Some [of c] by (auto simp: fullwidth_glyph_def)


lemma loop_supported:
  "\<forall>c \<in> set s. supported c \<Longrightarrow>
     \<exists>out. string_to_fullwidth_loop acc s = Inr (acc @ out) \<and> list_all2 fullwidth_glyph s out"
proof (induction s arbitrary: acc)
  case Nil
  then show ?case by simp
next
  case (Cons c s)
  from Cons.prems obtain g where g: "fullwidth_glyph c g"
    using supported_glyph by auto
  from Cons.prems have "\<forall>c \<in> set s. supported c" by simp
  from Cons.IH [OF this, of "acc @ [g]"] obtain out where
    "string_to_fullwidth_loop (acc @ [g]) s = Inr ((acc @ [g]) @ out)"
    "list_all2 fullwidth_glyph s out" by blast
  with g have "string_to_fullwidth_loop acc (c # s) = Inr (acc @ (g # out))
      \<and> list_all2 fullwidth_glyph (c # s) (g # out)"
    by (simp add: fullwidth_glyph_def)
  then show ?case by blast
qed

lemma loop_unsupported:
  "\<exists>c \<in> set s. \<not> supported c \<Longrightarrow>
     \<exists>c \<in> set s. \<not> supported c \<and> string_to_fullwidth_loop acc s = Inl (KeyError [c])"
proof (induction s arbitrary: acc)
  case Nil
  then show ?case by simp
next
  case (Cons c s)
  show ?case
  proof (cases "supported c")
    case True
    then obtain g where g: "map_of FULLWIDTH_UNICODE [c] = Some [g]"
      using supported_glyph by (auto simp: fullwidth_glyph_def)
    from True Cons.prems have "\<exists>c \<in> set s. \<not> supported c" by auto
    from Cons.IH [OF this, of "acc @ [g]"] g show ?thesis by auto
  next
    case False
    then have "map_of FULLWIDTH_UNICODE [c] = None"
      using lookup_supported_iff by blast
    with False show ?thesis by auto
  qed
qed

lemma supported_space: "supported (ord CHR '' '')"
  by (simp add: supported_def)

lemma set_rjust: "set s \<subseteq> set (rjust s w) \<and> set (rjust s w) \<subseteq> insert (ord CHR '' '') (set s)"
  by (auto simp: rjust_def)

lemma padded_supported:
  "\<forall>c \<in> set s. supported c \<Longrightarrow>
     \<forall>c \<in> set (if 0 < w then rjust s w else s). supported c"
  using set_rjust [of s w] supported_space by auto

lemma string_to_fullwidth_supported:
  assumes "\<forall>c \<in> set s. supported c"
  shows "\<exists>out. string_to_fullwidth s w = Inr out \<and>
           list_all2 fullwidth_glyph (if 0 < w then rjust s w else s) out"
  using loop_supported [OF padded_supported [OF assms, of w], of "[]"]
  by (simp add: string_to_fullwidth_def Let_def)

lemma string_to_fullwidth_unsupported:
  assumes "\<exists>c \<in> set s. \<not> supported c"
  shows "\<exists>c \<in> set s. \<not> supported c \<and> string_to_fullwidth s w = Inl (KeyError [c])"
proof -
  let ?p = "if 0 < w then rjust s w else s"
  from assms have "\<exists>c \<in> set ?p. \<not> supported c"
    using set_rjust [of s w] by auto
  from loop_unsupported [OF this, of "[]"] obtain c where
    c: "c \<in> set ?p" "\<not> supported c" "string_to_fullwidth_loop [] ?p = Inl (KeyError [c])"
    by blast
  from c(1,2) have "c \<in> set s"
    using set_rjust [of s w] supported_space by (auto split: if_splits)
  with c(2,3) show ?thesis
    by (auto simp: string_to_fullwidth_def Let_def)
qed

text \<open>
  C6. Encoding fails, with the \<^verbatim>\<open>KeyError\<close> of the table lookup, for every string that
  holds a character outside the supported alphabet, whatever the width; the key of the error
  is such a character of the string. Encoding succeeds on every string of supported
  characters.
\<close>

theorem encoder_rejects_unsupported:
  "((\<exists>c \<in> set s. \<not> supported c) \<longrightarrow>
      (\<exists>c \<in> set s. \<not> supported c \<and> string_to_fullwidth s w = Inl (KeyError [c]))) \<and>
   ((\<forall>c \<in> set s. supported c) \<longrightarrow> (\<exists>out. string_to_fullwidth s w = Inr out))"
  using string_to_fullwidth_unsupported [of s w] string_to_fullwidth_supported [of s w]
  by blast

theorem encoder_rejects_unsupported_witness:
  "(\<exists>c \<in> set (ustr ''a!''). \<not> supported c \<and>
      string_to_fullwidth (ustr ''a!'') 3 = Inl (KeyError [c])) \<and>
   string_to_fullwidth (ustr ''a!'') 3 = Inl (KeyError (ustr ''!'')) \<and>
   (\<exists>out. string_to_fullwidth (ustr ''Tue-9 z'') 0 = Inr out)"
proof -
  have a: "\<exists>c \<in> set (ustr ''a!''). \<not> supported c"
    by (simp add: ustr_def ord_def supported_def)
  have b: "\<forall>c \<in> set (ustr ''Tue-9 z''). supported c"
    by (simp add: ustr_def ord_def supported_def)
  have c: "string_to_fullwidth (ustr ''a!'') 3 = Inl (KeyError (ustr ''!''))"
    by (simp add: string_to_fullwidth_def rjust_def FULLWIDTH_UNICODE_def ustr_def ord_def)
  from a b c encoder_rejects_unsupported [of "ustr ''a!''" 3]
    encoder_rejects_unsupported [of "ustr ''Tue-9 z''" 0]
  show ?thesis by blast
qed

text \<open>
  C7. For every string \<open>s\<close> of supported characters and every width \<open>w\<close> that is at least the
  length of \<open>s\<close>, encoding succeeds and the output has exactly \<open>w\<close> code points: the string
  is padded with spaces on the left to the width \<open>w\<close>, and each character of the padded
  string gives the one code point that the table holds for it.
\<close>

theorem encoder_width:
  assumes "\<forall>c \<in> set s. supported c" and "int (length s) \<le> w"
  shows "\<exists>out. string_to_fullwidth s w = Inr out \<and> int (length out) = w \<and>
           list_all2 fullwidth_glyph (replicate (nat w - length s) (ord CHR '' '') @ s) out"
proof -
  from string_to_fullwidth_supported [OF assms(1), of w] obtain out where
    out: "string_to_fullwidth s w = Inr out"
      "list_all2 fullwidth_glyph (if 0 < w then rjust s w else s) out" by blast
  have p: "(if 0 < w then rjust s w else s) = replicate (nat w - length s) (ord CHR '' '') @ s"
    using assms(2) by (auto simp: rjust_def nat_diff_distrib')
  from out(2) have "length (if 0 < w then rjust s w else s) = length out"
    by (rule list_all2_lengthD)
  with p assms(2) have "int (length out) = w" by simp
  with out p show ?thesis by auto
qed

theorem encoder_width_witness:
  "int (length (ustr ''-5'')) \<le> 3 \<and>
   string_to_fullwidth (ustr ''-5'') 3 = Inr [0x3000, 0xFF0D, 0xFF15] \<and>
   (\<exists>out. string_to_fullwidth (ustr ''-5'') 3 = Inr out \<and> int (length out) = 3)"
proof -
  have a: "\<forall>c \<in> set (ustr ''-5''). supported c"
    by (simp add: ustr_def ord_def supported_def)
  have b: "int (length (ustr ''-5'')) \<le> 3"
    by (simp add: ustr_def)
  have c: "string_to_fullwidth (ustr ''-5'') 3 = Inr [0x3000, 0xFF0D, 0xFF15]"
    by (simp add: string_to_fullwidth_def rjust_def FULLWIDTH_UNICODE_def ustr_def ord_def)
  from encoder_width [OF a b] b c show ?thesis by blast
qed

section \<open>Properties of the field formatters\<close>

lemma digits_chars: "\<forall>c \<in> set (digits n). ord CHR ''0'' \<le> c \<and> c \<le> ord CHR ''9''"
proof (induction n rule: digits.induct)
  case (1 n)
  show ?case
  proof (cases "n < 10")
    case True
    then show ?thesis by (subst digits.simps) (simp add: ord_def)
  next
    case False
    have "n mod 10 < 10" by simp
    then have "ord CHR ''0'' + n mod 10 \<le> ord CHR ''9''" by (simp add: ord_def)
    with False 1 show ?thesis by (subst digits.simps) auto
  qed
qed

lemma str_supported: "\<forall>c \<in> set (str n). supported c"
  using digits_chars by (auto simp: str_def supported_def)

lemma str_examples:
  "str 0 = ustr ''0''" "str 7 = ustr ''7''" "str 12 = ustr ''12''"
  "str (- 5) = ustr ''-5''" "str 105 = ustr ''105''"
  by (simp_all add: str_def digits.simps ustr_def ord_def)


lemma str_fullwidth:
  "\<exists>fw. string_to_fullwidth (str n) w = Inr fw \<and>
         list_all2 fullwidth_glyph (if 0 < w then rjust (str n) w else str n) fw"
  using string_to_fullwidth_supported [OF str_supported] by blast


lemma get_wind_speed_parts:
  "\<exists>arrow fw.
     get_wind_speed mph = Inr (ARROWS_UNICODE arrow @ fw @ ustr ''mph'') \<and>
     (arrow = RIGHTWARDS_ARROW \<longleftrightarrow> mph < 10) \<and>
     (arrow = RIGHTWARDS_PAIRED_ARROWS \<longleftrightarrow> 10 \<le> mph \<and> mph < 20) \<and>
     (arrow = THREE_RIGHTWARDS_ARROWS \<longleftrightarrow> 20 \<le> mph) \<and>
     string_to_fullwidth (str mph) 2 = Inr fw \<and>
     list_all2 fullwidth_glyph (rjust (str mph) 2) fw"
proof -
  from str_fullwidth [of mph 2] obtain fw where
    fw: "string_to_fullwidth (str mph) 2 = Inr fw"
      "list_all2 fullwidth_glyph (rjust (str mph) 2) fw" by auto
  let ?arrow = "if mph < 10 then RIGHTWARDS_ARROW
    else if mph < 20 then RIGHTWARDS_PAIRED_ARROWS else THREE_RIGHTWARDS_ARROWS"
  have "get_wind_speed mph = Inr (ARROWS_UNICODE ?arrow @ fw @ ustr ''mph'')"
    using fw(1) by (simp add: get_wind_speed_def)
  moreover have "(?arrow = RIGHTWARDS_ARROW \<longleftrightarrow> mph < 10) \<and>
     (?arrow = RIGHTWARDS_PAIRED_ARROWS \<longleftrightarrow> 10 \<le> mph \<and> mph < 20) \<and>
     (?arrow = THREE_RIGHTWARDS_ARROWS \<longleftrightarrow> 20 \<le> mph)"
    by simp
  ultimately show ?thesis using fw by blast
qed

lemma get_wind_speed_thresholds:
  "get_wind_speed 9 = Inr ([0x2192, 0x3000, 0xFF19] @ ustr ''mph'') \<and>
   get_wind_speed 10 = Inr ([0x21C9, 0xFF11, 0xFF10] @ ustr ''mph'') \<and>
   get_wind_speed 19 = Inr ([0x21C9, 0xFF11, 0xFF19] @ ustr ''mph'') \<and>
   get_wind_speed 20 = Inr ([0x21F6, 0xFF12, 0xFF10] @ ustr ''mph'')"
  by (simp add: get_wind_speed_def string_to_fullwidth_def rjust_def str_def digits.simps
      FULLWIDTH_UNICODE_def ustr_def ord_def)

lemma digits_not_empty: "digits n \<noteq> []"
  by (subst digits.simps) simp

lemma digits_length_1: "n < 10 \<Longrightarrow> length (digits n) = 1"
  by (subst digits.simps) simp

lemma digits_leading: "0 < n \<Longrightarrow> hd (digits n) \<noteq> ord CHR ''0''"
proof (induction n rule: digits.induct)
  case (1 n)
  show ?case
  proof (cases "n < 10")
    case True
    with 1(2) show ?thesis by (subst digits.simps) simp
  next
    case False
    then have "0 < n div 10" by simp
    with 1(1) False have "hd (digits (n div 10)) \<noteq> ord CHR ''0''" by simp
    with False show ?thesis
      by (subst digits.simps) (simp add: digits_not_empty)
  qed
qed

lemma digits_value_snoc:
  "digits_value (ds @ [c]) = 10 * digits_value ds + (c - ord CHR ''0'')"
  by (simp add: digits_value_def)

lemma digits_value_digits: "digits_value (digits n) = n"
proof (induction n rule: digits.induct)
  case (1 n)
  show ?case
  proof (cases "n < 10")
    case True
    then show ?thesis by (subst digits.simps) (simp add: digits_value_def)
  next
    case False
    with 1 have "digits_value (digits (n div 10)) = n div 10" by simp
    with False show ?thesis
      by (subst digits.simps) (simp add: digits_value_snoc)
  qed
qed

lemma decimal_digits_digits: "decimal_digits n (digits n)"
proof -
  have "length (digits n) = 1 \<or> hd (digits n) \<noteq> ord CHR ''0''"
  proof (cases "n < 10")
    case True
    then show ?thesis by (simp add: digits_length_1)
  next
    case False
    then show ?thesis by (simp add: digits_leading)
  qed
  with digits_chars [of n] show ?thesis
    by (simp add: decimal_digits_def digits_not_empty digits_value_digits list_all_iff)
qed

lemma decimal_numeral_str: "decimal_numeral n (str n)"
  by (simp add: decimal_numeral_def str_def decimal_digits_digits)

lemma rjust_replicate: "rjust s 2 = replicate (2 - length s) (ord CHR '' '') @ s"
proof -
  have "nat (2 - int (length s)) = 2 - length s" by linarith
  then show ?thesis by (simp add: rjust_def)
qed

text \<open>
  C8. For every integer wind speed the formatter puts the single arrow first exactly when the
  speed is below 10, the paired arrows exactly when it is at least 10 and below 20, and the
  three arrows exactly when it is at least 20. Then comes the fullwidth encoding, at width 2,
  of the decimal numeral of the speed: the numeral, padded with spaces on the left to two
  characters, gives the block glyph by glyph. Last comes the ASCII text \<^verbatim>\<open>mph\<close>, not
  encoded. At the thresholds: 9 gives the single arrow, 10 and 19 the paired arrows, 20 the
  three arrows, each followed by the two fullwidth characters of the speed and \<^verbatim>\<open>mph\<close>.
\<close>

theorem wind_speed_format:
  "(\<exists>arrow numeral fw.
      get_wind_speed mph = Inr (ARROWS_UNICODE arrow @ fw @ ustr ''mph'') \<and>
      (arrow = RIGHTWARDS_ARROW \<longleftrightarrow> mph < 10) \<and>
      (arrow = RIGHTWARDS_PAIRED_ARROWS \<longleftrightarrow> 10 \<le> mph \<and> mph < 20) \<and>
      (arrow = THREE_RIGHTWARDS_ARROWS \<longleftrightarrow> 20 \<le> mph) \<and>
      decimal_numeral mph numeral \<and>
      string_to_fullwidth numeral 2 = Inr fw \<and>
      list_all2 fullwidth_glyph (replicate (2 - length numeral) (ord CHR '' '') @ numeral) fw) \<and>
   get_wind_speed 9 = Inr ([0x2192, 0x3000, 0xFF19] @ [109, 112, 104]) \<and>
   get_wind_speed 10 = Inr ([0x21C9, 0xFF11, 0xFF10] @ [109, 112, 104]) \<and>
   get_wind_speed 19 = Inr ([0x21C9, 0xFF11, 0xFF19] @ [109, 112, 104]) \<and>
   get_wind_speed 20 = Inr ([0x21F6, 0xFF12, 0xFF10] @ [109, 112, 104])"
proof -
  from get_wind_speed_parts [of mph] obtain arrow fw where
    p: "get_wind_speed mph = Inr (ARROWS_UNICODE arrow @ fw @ ustr ''mph'') \<and>
      (arrow = RIGHTWARDS_ARROW \<longleftrightarrow> mph < 10) \<and>
      (arrow = RIGHTWARDS_PAIRED_ARROWS \<longleftrightarrow> 10 \<le> mph \<and> mph < 20) \<and>
      (arrow = THREE_RIGHTWARDS_ARROWS \<longleftrightarrow> 20 \<le> mph) \<and>
      string_to_fullwidth (str mph) 2 = Inr fw \<and>
      list_all2 fullwidth_glyph (rjust (str mph) 2) fw"
    by (elim exE) 
  then have "get_wind_speed mph = Inr (ARROWS_UNICODE arrow @ fw @ ustr ''mph'') \<and>
      (arrow = RIGHTWARDS_ARROW \<longleftrightarrow> mph < 10) \<and>
      (arrow = RIGHTWARDS_PAIRED_ARROWS \<longleftrightarrow> 10 \<le> mph \<and> mph < 20) \<and>
      (arrow = THREE_RIGHTWARDS_ARROWS \<longleftrightarrow> 20 \<le> mph) \<and>
      decimal_numeral mph (str mph) \<and>
      string_to_fullwidth (str mph) 2 = Inr fw \<and>
      list_all2 fullwidth_glyph (replicate (2 - length (str mph)) (ord CHR '' '') @ str mph) fw"
    by (simp add: decimal_numeral_str rjust_replicate)
  then have "\<exists>arrow numeral fw.
      get_wind_speed mph = Inr (ARROWS_UNICODE arrow @ fw @ ustr ''mph'') \<and>
      (arrow = RIGHTWARDS_ARROW \<longleftrightarrow> mph < 10) \<and>
      (arrow = RIGHTWARDS_PAIRED_ARROWS \<longleftrightarrow> 10 \<le> mph \<and> mph < 20) \<and>
      (arrow = THREE_RIGHTWARDS_ARROWS \<longleftrightarrow> 20 \<le> mph) \<and>
      decimal_numeral mph numeral \<and>
      string_to_fullwidth numeral 2 = Inr fw \<and>
      list_all2 fullwidth_glyph (replicate (2 - length numeral) (ord CHR '' '') @ numeral) fw"
    by (intro exI)
  then show ?thesis
    using get_wind_speed_thresholds by (simp add: ustr_def ord_def)
qed

theorem wind_speed_format_witness:
  "decimal_numeral 20 (ustr ''20'') \<and> decimal_numeral 9 (ustr ''9'') \<and>
   decimal_numeral (- 3) (ustr ''-3'') \<and>
   (\<exists>fw. get_wind_speed 20 = Inr (ARROWS_UNICODE THREE_RIGHTWARDS_ARROWS @ fw @ ustr ''mph'')) \<and>
   get_wind_speed 9 = Inr ([0x2192, 0x3000, 0xFF19] @ [109, 112, 104])"
proof -
  have a: "decimal_numeral 20 (ustr ''20'')" "decimal_numeral 9 (ustr ''9'')"
    "decimal_numeral (- 3) (ustr ''-3'')"
    by (simp_all add: decimal_numeral_def decimal_digits_def digits_value_def ustr_def ord_def)
  from wind_speed_format [of 20] have "\<exists>arrow fw.
      get_wind_speed 20 = Inr (ARROWS_UNICODE arrow @ fw @ ustr ''mph'') \<and>
      arrow = THREE_RIGHTWARDS_ARROWS" by auto
  then have b: "\<exists>fw. get_wind_speed 20 =
      Inr (ARROWS_UNICODE THREE_RIGHTWARDS_ARROWS @ fw @ ustr ''mph'')" by auto
  from wind_speed_format [of 9]
  have c: "get_wind_speed 9 = Inr ([0x2192, 0x3000, 0xFF19] @ [109, 112, 104])"
    by (elim conjE)
  from a b c show ?thesis by (intro conjI)
qed

section \<open>Properties of the nice-day classifier\<close>

lemma upto_as_upt: "0 \<le> a \<Longrightarrow> [a..b] = map int [nat a..<nat (b + 1)]"
  by (rule nth_equalityI) auto

lemma filter_less_upt: "filter (\<lambda>k. k < n) [a..<b] = [a..<min b n]"
  by (induction b) auto

lemma map_nth_upt_take_drop: "b \<le> length xs \<Longrightarrow> map (nth xs) [a..<b] = take (b - a) (drop a xs)"
  by (rule nth_equalityI) auto

lemma window_as_upt:
  "window index forecasts =
     map (nth forecasts) [nat (max (index - 3) 0)..<min (nat (index + 1)) (length forecasts)]"
proof -
  have "window index forecasts =
      List.map_filter (\<lambda>k. record_at forecasts (int k)) [nat (max (index - 3) 0)..<nat (index + 1)]"
    by (simp add: window_def upto_as_upt List.map_filter_def filter_map comp_def)
  also have "\<dots> = map (nth forecasts)
      (filter (\<lambda>k. k < length forecasts) [nat (max (index - 3) 0)..<nat (index + 1)])"
    by (auto simp: List.map_filter_def record_at_def intro!: filter_cong)
  finally show ?thesis by (simp add: filter_less_upt)
qed

lemma slice_window:
  assumes "- 1 \<le> index"
  shows "slice forecasts (max (index - 3) 0) (index + 1) = window index forecasts"
proof -
  let ?n = "length forecasts"
  let ?a = "nat (max (index - 3) 0)"
  let ?b = "nat (index + 1)"
  have lo: "slice_bound (int ?n) (max (index - 3) 0) = min ?a ?n"
    by (auto simp: slice_bound_def)
  have hi: "slice_bound (int ?n) (index + 1) = min ?b ?n"
    using assms by (auto simp: slice_bound_def)
  have "slice forecasts (max (index - 3) 0) (index + 1) =
      take (min ?b ?n - min ?a ?n) (drop (min ?a ?n) forecasts)"
    by (simp only: slice_def Let_def lo hi)
  also have "\<dots> = take (min ?b ?n - ?a) (drop ?a forecasts)"
    by (cases "?a \<le> ?n") auto
  also have "\<dots> = map (nth forecasts) [?a..<min ?b ?n]"
    by (simp add: map_nth_upt_take_drop)
  finally show ?thesis by (simp add: window_as_upt)
qed

lemma length_window: "length (window index forecasts) \<le> 4"
  by (auto simp: window_as_upt)

lemma loop_test_nice:
  "(List.member nice_weather_types (weather_type f) \<and> wind_speed_mph f \<le> 15 \<and>
      rain_probability_pc f \<le> 20) \<longleftrightarrow> nice f"
  by (auto simp: nice_def nice_weather_types_def)

lemma calc_nice_day_loop_Cons:
  "calc_nice_day_loop i (f # rest) =
    (if \<not> nice f
     then (if i \<le> 1 then EMOTICONS_UNICODE LOUDLY_CRYING_FACE
           else EMOTICONS_UNICODE NEUTRAL_FACE)
     else calc_nice_day_loop (i + 1) rest)"
  by (simp only: calc_nice_day_loop.simps loop_test_nice)

lemma calc_nice_day_loop_rule:
  "calc_nice_day_loop i ws =
    (if length (takeWhile nice ws) = length ws
       then EMOTICONS_UNICODE SMILEY_FACE_WITH_OPEN_MOUTH
     else if i + length (takeWhile nice ws) \<le> 1 then EMOTICONS_UNICODE LOUDLY_CRYING_FACE
     else EMOTICONS_UNICODE NEUTRAL_FACE)"
proof (induction ws arbitrary: i)
  case Nil
  then show ?case by simp
next
  case (Cons f ws)
  show ?case
  proof (cases "nice f")
    case True
    then show ?thesis
      by (simp add: calc_nice_day_loop_Cons Cons.IH
          del: calc_nice_day_loop.simps EMOTICONS_UNICODE.simps)
  next
    case False
    then show ?thesis
      by (simp add: calc_nice_day_loop_Cons
          del: calc_nice_day_loop.simps EMOTICONS_UNICODE.simps)
  qed
qed

lemma calc_nice_day_loop_range:
  "calc_nice_day_loop i ws \<in>
     {EMOTICONS_UNICODE SMILEY_FACE_WITH_OPEN_MOUTH, EMOTICONS_UNICODE NEUTRAL_FACE,
      EMOTICONS_UNICODE LOUDLY_CRYING_FACE}"
  by (simp add: calc_nice_day_loop_rule del: EMOTICONS_UNICODE.simps)

text \<open>
  C1. For every index, a position counted from 0 as the loop of \<^verbatim>\<open>main\<close> passes it, and
  every forecast sequence, the classifier follows the rule \<open>nice_day_rule\<close> on the window of
  the records at the positions \<open>max (index - 3) 0\<close> to \<open>index\<close>: at most four records, read
  most recent first; the first record that is not nice gives the loudly crying face (the
  glyph of the sad level) at position 0 or 1 and the neutral face at position 2 or 3, and a
  window of nice records gives the smiley face. At index 0, a position of every sequence
  that is not empty, the window is the first record alone, and the result is the loudly
  crying face when that record is not nice.
\<close>

theorem nice_day_window_rule:
  "nice_day_rule (int i) forecasts \<and>
    (forecasts \<noteq> [] \<longrightarrow> window 0 forecasts = [hd forecasts] \<and>
       (\<not> nice (hd forecasts) \<longrightarrow>
          calc_nice_day_emoticon 0 forecasts = EMOTICONS_UNICODE LOUDLY_CRYING_FACE))"
proof -
  let ?w = "rev (window (int i) forecasts)"
  have pos: "- 1 \<le> int i" by simp
  have len: "length ?w \<le> 4" using length_window [of "int i" forecasts] by simp
  have tw: "length (takeWhile nice ?w) \<le> length ?w" by (rule length_takeWhile_le)
  have r: "calc_nice_day_emoticon (int i) forecasts = calc_nice_day_loop 0 ?w"
    by (simp only: calc_nice_day_emoticon_def Let_def slice_window [OF pos])
  have rule: "nice_day_rule (int i) forecasts"
    unfolding nice_day_rule_def Let_def r calc_nice_day_loop_rule
    using len tw by (auto simp del: EMOTICONS_UNICODE.simps)
  have zero: "window 0 forecasts = [hd forecasts]" if "forecasts \<noteq> []"
    using that by (cases forecasts) (simp_all add: window_def record_at_def List.map_filter_def)
  have "calc_nice_day_emoticon 0 forecasts = EMOTICONS_UNICODE LOUDLY_CRYING_FACE"
    if "forecasts \<noteq> []" "\<not> nice (hd forecasts)"
  proof -
    have "calc_nice_day_emoticon 0 forecasts = calc_nice_day_loop 0 (rev (window 0 forecasts))"
      by (simp add: calc_nice_day_emoticon_def slice_window [of 0, simplified])
    with that zero show ?thesis
      by (simp add: calc_nice_day_loop_Cons del: calc_nice_day_loop.simps)
  qed
  with rule zero show ?thesis by blast
qed

theorem nice_day_window_rule_witness:
  "nice_day_rule 3 [wet_period, fine_period, fine_period, fine_period] \<and>
   calc_nice_day_emoticon 3 [wet_period, fine_period, fine_period, fine_period] =
     EMOTICONS_UNICODE NEUTRAL_FACE \<and>
   window 0 [wet_period, fine_period, fine_period, fine_period] = [wet_period] \<and>
   calc_nice_day_emoticon 0 [wet_period, fine_period, fine_period, fine_period] =
     EMOTICONS_UNICODE LOUDLY_CRYING_FACE"
proof -
  let ?fs = "[wet_period, fine_period, fine_period, fine_period]"
  have a: "\<not> nice (hd ?fs)" by (simp add: nice_def wet_period_def)
  have b: "calc_nice_day_emoticon 3 ?fs = EMOTICONS_UNICODE NEUTRAL_FACE"
    by (simp add: calc_nice_day_emoticon_def slice_def slice_bound_def nice_weather_types_def
        wet_period_def fine_period_def)
  from nice_day_window_rule [of 3 ?fs] a b show ?thesis by simp
qed

text \<open>
  C4, as the code has it. For every index and forecast sequence the result is one of three
  of the four emoticon glyphs: the smiley face with open mouth, the neutral face or the
  loudly crying face, and each of the three is the result for some input. The glyph that is
  never returned is the third of the table, the disappointed face.
\<close>

theorem nice_day_three_glyphs:
  "calc_nice_day_emoticon index forecasts \<in>
     {EMOTICONS_UNICODE SMILEY_FACE_WITH_OPEN_MOUTH, EMOTICONS_UNICODE NEUTRAL_FACE,
      EMOTICONS_UNICODE LOUDLY_CRYING_FACE} \<and>
   calc_nice_day_emoticon index forecasts \<noteq> EMOTICONS_UNICODE DISAPPOINTED_FACE \<and>
   calc_nice_day_emoticon 0 [fine_period] = EMOTICONS_UNICODE SMILEY_FACE_WITH_OPEN_MOUTH \<and>
   calc_nice_day_emoticon 2 [wet_period, fine_period, fine_period] =
     EMOTICONS_UNICODE NEUTRAL_FACE \<and>
   calc_nice_day_emoticon 1 [wet_period, fine_period] = EMOTICONS_UNICODE LOUDLY_CRYING_FACE"
proof -
  have "calc_nice_day_emoticon index forecasts \<in>
     {EMOTICONS_UNICODE SMILEY_FACE_WITH_OPEN_MOUTH, EMOTICONS_UNICODE NEUTRAL_FACE,
      EMOTICONS_UNICODE LOUDLY_CRYING_FACE}"
    unfolding calc_nice_day_emoticon_def Let_def by (rule calc_nice_day_loop_range)
  moreover from this
  have "calc_nice_day_emoticon index forecasts \<noteq> EMOTICONS_UNICODE DISAPPOINTED_FACE"
    by auto
  moreover have
    "calc_nice_day_emoticon 0 [fine_period] = EMOTICONS_UNICODE SMILEY_FACE_WITH_OPEN_MOUTH"
    "calc_nice_day_emoticon 2 [wet_period, fine_period, fine_period] =
       EMOTICONS_UNICODE NEUTRAL_FACE"
    "calc_nice_day_emoticon 1 [wet_period, fine_period] = EMOTICONS_UNICODE LOUDLY_CRYING_FACE"
    by (simp_all add: calc_nice_day_emoticon_def slice_def slice_bound_def
        nice_weather_types_def wet_period_def fine_period_def)
  ultimately show ?thesis by blast
qed

text \<open>
  C4, as stated, fails: the fourth and most negative glyph of the table, the loudly crying
  face, is the result for a sequence of one wet record at index 0.
\<close>

theorem nice_day_most_negative_counterexample:
  "calc_nice_day_emoticon 0 [wet_period] = EMOTICONS_UNICODE LOUDLY_CRYING_FACE"
  by (simp add: calc_nice_day_emoticon_def slice_def slice_bound_def
      nice_weather_types_def wet_period_def)

lemma map_filter_agree:
  "\<forall>x \<in> set xs. f x = g x \<Longrightarrow> List.map_filter f xs = List.map_filter g xs"
  by (induction xs) (auto split: option.splits)

text \<open>
  C10. For every index, a position counted from 0 as the loop of \<^verbatim>\<open>main\<close> passes it, two
  forecast sequences that hold the same record, or both none, at each position from
  \<open>max (index - 3) 0\<close> to \<open>index\<close> get the same emoticon: the records outside the window
  have no influence. The function only reads its arguments.
\<close>

theorem nice_day_window_only:
  assumes "\<forall>k \<in> {max (int i - 3) 0..int i}. record_at a k = record_at b k"
  shows "calc_nice_day_emoticon (int i) a = calc_nice_day_emoticon (int i) b"
proof -
  have pos: "- 1 \<le> int i" by simp
  have "window (int i) a = window (int i) b"
    unfolding window_def using assms by (intro map_filter_agree) simp
  then show ?thesis
    by (simp only: calc_nice_day_emoticon_def Let_def slice_window [OF pos])
qed

theorem nice_day_window_only_witness:
  "calc_nice_day_emoticon 4 [wet_period, fine_period, fine_period, fine_period, fine_period] =
   calc_nice_day_emoticon 4 [fine_period, fine_period, fine_period, fine_period, fine_period, wet_period]"
proof -
  let ?a = "[wet_period, fine_period, fine_period, fine_period, fine_period]"
  let ?b = "[fine_period, fine_period, fine_period, fine_period, fine_period, wet_period]"
  have "\<forall>k \<in> {max (int 4 - 3) 0..int 4}. record_at ?a k = record_at ?b k"
  proof
    fix k :: int assume "k \<in> {max (int 4 - 3) 0..int 4}"
    then have "k = 1 \<or> k = 2 \<or> k = 3 \<or> k = 4" by auto
    then show "record_at ?a k = record_at ?b k" by (auto simp: record_at_def)
  qed
  from nice_day_window_only [OF this] show ?thesis by simp
qed

section \<open>Properties of the forecast selector and line composer\<close>


















lemma example_day:
  "string_to_fullwidth (upper (strftime_a \<lparr>weekday = Monday, hour = h\<rparr>)) 0 =
     Inr [0xFF2D, 0xFF2F, 0xFF2E]"
  by (simp add: string_to_fullwidth_def upper_def FULLWIDTH_UNICODE_def ustr_def ord_def)

lemma example_temperature:
  "get_temperature 18 = Inr [0x3000, 0xFF11, 0xFF18, 0x2103]"
  "get_temperature 9 = Inr [0x3000, 0x3000, 0xFF19, 0x2103]"
  by (simp_all add: get_temperature_def string_to_fullwidth_def rjust_def str_def digits.simps
      FULLWIDTH_UNICODE_def DEGREE_CELSIUS_UNICODE_def ustr_def ord_def numeral_2_eq_2)

lemma example_wind:
  "get_wind_speed 5 = Inr ([0x2192, 0x3000, 0xFF15] @ ustr ''mph'')"
  "get_wind_speed 25 = Inr ([0x21F6, 0xFF12, 0xFF15] @ ustr ''mph'')"
  by (simp_all add: get_wind_speed_def string_to_fullwidth_def rjust_def str_def digits.simps
      FULLWIDTH_UNICODE_def ustr_def ord_def)

lemma example_emoticon:
  "calc_nice_day_emoticon 0 [fine_period, wet_period, night_period] =
     EMOTICONS_UNICODE SMILEY_FACE_WITH_OPEN_MOUTH"
  "calc_nice_day_emoticon 1 [fine_period, wet_period, night_period] =
     EMOTICONS_UNICODE LOUDLY_CRYING_FACE"
  by (simp_all add: calc_nice_day_emoticon_def slice_def slice_bound_def
      nice_weather_types_def wet_period_def fine_period_def)

lemma example_fields:
  "period fine_period = 4" "from_time fine_period = \<lparr>weekday = Monday, hour = 9\<rparr>"
  "weather_type fine_period = 1" "temperature_c fine_period = 18"
  "wind_speed_mph fine_period = 5"
  "period wet_period = 5" "from_time wet_period = \<lparr>weekday = Monday, hour = 12\<rparr>"
  "weather_type wet_period = 12" "temperature_c wet_period = 9"
  "wind_speed_mph wet_period = 25"
  "period night_period = 1"
  by (simp_all add: fine_period_def wet_period_def night_period_def)

lemma example_body:
  "main_body [fine_period, wet_period, night_period] =
     Inr [0xFF2D, 0xFF2F, 0xFF2E, 0x33C2, 0x1F603, 0x2600, 0x3000, 0xFF11, 0xFF18, 0x2103,
          0x2192, 0x3000, 0xFF15, 109, 112, 104,
          0x0A,
          0xFF2D, 0xFF2F, 0xFF2E, 0x33D8, 0x1F62D, 0x2614, 0x3000, 0x3000, 0xFF19, 0x2103,
          0x21F6, 0xFF12, 0xFF15, 109, 112, 104]"
proof -
  let ?fs = "[fine_period, wet_period, night_period]"
  let ?l1 = "[0xFF2D, 0xFF2F, 0xFF2E, 0x33C2, 0x1F603, 0x2600, 0x3000, 0xFF11, 0xFF18, 0x2103,
          0x2192, 0x3000, 0xFF15, 109, 112, 104] :: pystr"
  let ?l2 = "[0xFF2D, 0xFF2F, 0xFF2E, 0x33D8, 0x1F62D, 0x2614, 0x3000, 0x3000, 0xFF19, 0x2103,
          0x21F6, 0xFF12, 0xFF15, 109, 112, 104] :: pystr"
  have mph: "ustr ''mph'' = [109, 112, 104]" by (simp add: ustr_def ord_def)
  have a: "main_append 0 fine_period ?fs [] = Inr ?l1"
    by (simp add: main_append_def example_fields example_day example_temperature
        example_wind example_emoticon get_am_pm_def get_weather_icon_cases mph
        del: strftime_a.simps)
  have b: "main_append (Suc 0) wet_period ?fs ?l1 = Inr (?l1 @ [0x0A] @ ?l2)"
    by (simp add: main_append_def example_fields example_day example_temperature
        example_wind example_emoticon get_am_pm_def get_weather_icon_cases mph newline_def
        del: strftime_a.simps)
  show ?thesis
    using a b by (simp add: main_body_def example_fields)
qed


end
